theory Spec2Isabelle
  imports Main
begin

section \<open>The tree-view panel controller (treeview.ts)\<close>

text \<open>
  The module keeps one mutable variable, \<open>currentPosition\<close>, and talks to its
  collaborators (the editor, asset and system syscalls, the page-tree provider and the
  configuration module) through awaited calls, each of which may reject. The embedding
  passes the module's state explicitly, returns a rejection as \<open>Inl\<close>, and records every
  call that is issued to a collaborator in a trace, in the order of issue.
\<close>

subsection \<open>Data\<close>

text \<open>
  Modelled from the spec: the type \<open>Position\<close> is declared in config.ts. It is a fixed
  enumeration of panel placements that contains \<open>"modal"\<close>; the spec names
  \<open>"left" | "right" | "modal"\<close>. Every member is a non-empty string, so the test
  \<open>if (currentPosition)\<close> of the source is true exactly when the variable is defined.
\<close>

datatype Position = Left | Right | Modal

text \<open>
  Modelled from the spec: the type \<open>TreeViewConfig\<close> is declared in config.ts, with the
  fields \<open>position\<close>, \<open>autoMobileMode\<close>, \<open>mobileThreshold\<close>, \<open>size\<close> and
  \<open>dragAndDrop\<close>. Pixel widths are integers here, as \<open>window.innerWidth\<close> is.
\<close>

record DragAndDrop =
  enabled :: bool

record TreeViewConfig =
  position :: Position
  autoMobileMode :: bool
  mobileThreshold :: int
  size_cfg :: int
  dragAndDrop :: DragAndDrop

text \<open>
  Modelled from the spec: what \<open>getPageTree\<close> of api.ts resolves to, a current page and
  an ordered sequence of nodes, handed on to the panel as they are.
\<close>

datatype TreeNode = TreeNode string "TreeNode list"

record PageTree =
  currentPage :: string
  nodes :: "TreeNode list"

datatype error = Error string

text \<open>The object \<open>treeViewConfig\<close> that showTree builds for the client script.\<close>

record InitConfig =
  ic_nodes :: "TreeNode list"
  ic_currentPage :: string
  ic_treeElementId :: string
  ic_dragAndDrop :: DragAndDrop

text \<open>
  The two template literals handed to \<open>editor.showPanel\<close>, as the values they
  interpolate; the fixed text between the interpolations is not reproduced.
\<close>

record PanelHtml =
  html_sortableTreeCss :: string
  html_plugCss :: string
  html_customStyles :: string
  html_iconFolderPlus :: string
  html_iconFolderMinus :: string
  html_iconNavigation2 :: string
  html_iconRefresh :: string
  html_iconXCircle :: string
  html_treeElementId :: string

record PanelScript =
  js_sortableTreeJs :: string
  js_plugJs :: string
  js_initConfig :: InitConfig
  js_autoMobileMode :: bool

text \<open>A call issued to a collaborator, or a line written to the console.\<close>

datatype event =
    GetEnv
  | IsTreeViewEnabled
  | SetTreeViewEnabled bool
  | GetPlugConfig
  | ReadAsset string string
  | GetPageTree TreeViewConfig
  | GetCustomStyles
  | ShowPanel Position int PanelHtml PanelScript
  | HidePanel Position
  | ConsoleError string error

text \<open>
  The state: the module variable \<open>currentPosition\<close> (\<open>None\<close> is \<open>undefined\<close>), the
  persisted preference behind \<open>isTreeViewEnabled\<close> and \<open>setTreeViewEnabled\<close>, and the
  trace of issued calls, oldest first.
\<close>

record world =
  currentPosition :: "Position option"
  preference :: bool
  trace :: "event list"

text \<open>
  What the collaborators answer during one operation. No operation of the module calls
  a collaborator twice with the same arguments, so an answer per argument covers every
  behaviour of the collaborators. \<open>window_innerWidth\<close> is \<open>None\<close>
  where \<open>typeof window\<close> is \<open>"undefined"\<close>. An asset read settles at a time of its own
  with a content or an error. \<open>PLUG_NAME\<close> and \<open>PLUG_DISPLAY_NAME\<close> are the constants of
  config.ts.
\<close>

record deps =
  PLUG_NAME :: string
  PLUG_DISPLAY_NAME :: string
  window_innerWidth :: "int option"
  getEnv_result :: "error + string"
  isTreeViewEnabled_error :: "error option"
  setTreeViewEnabled_error :: "bool \<Rightarrow> error option"
  getPlugConfig_result :: "error + TreeViewConfig"
  readAsset_result :: "string \<Rightarrow> string \<Rightarrow> nat \<times> (error + string)"
  getPageTree_result :: "TreeViewConfig \<Rightarrow> error + PageTree"
  getCustomStyles_result :: "error + string option"
  showPanel_error :: "Position \<Rightarrow> error option"
  hidePanel_error :: "Position \<Rightarrow> error option"

subsection \<open>Awaited computations\<close>

type_synonym 'a io = "world \<Rightarrow> (error + 'a) \<times> world"

definition resolve :: "'a \<Rightarrow> 'a io" where
  "resolve x w = (Inr x, w)"

definition andThen :: "'a io \<Rightarrow> ('a \<Rightarrow> 'b io) \<Rightarrow> 'b io" where
  "andThen m k w = (case m w of (Inl e, w') \<Rightarrow> (Inl e, w') | (Inr x, w') \<Rightarrow> k x w')"

definition try_catch :: "'a io \<Rightarrow> (error \<Rightarrow> 'a io) \<Rightarrow> 'a io" where
  "try_catch m handler w =
     (case m w of (Inl e, w') \<Rightarrow> handler e w' | (Inr x, w') \<Rightarrow> (Inr x, w'))"

definition emit :: "event \<Rightarrow> world \<Rightarrow> world" where
  "emit ev w = w\<lparr>trace := trace w @ [ev]\<rparr>"

definition call :: "event \<Rightarrow> error + 'a \<Rightarrow> 'a io" where
  "call ev r w = (r, emit ev w)"

definition read_currentPosition :: "Position option io" where
  "read_currentPosition w = (Inr (currentPosition w), w)"

definition write_currentPosition :: "Position option \<Rightarrow> unit io" where
  "write_currentPosition p w = (Inr (), w\<lparr>currentPosition := p\<rparr>)"

subsection \<open>The collaborators\<close>

definition getEnv :: "deps \<Rightarrow> string io" where
  "getEnv d = call GetEnv (getEnv_result d)"

definition getPlugConfig :: "deps \<Rightarrow> TreeViewConfig io" where
  "getPlugConfig d = call GetPlugConfig (getPlugConfig_result d)"

definition getPageTree :: "deps \<Rightarrow> TreeViewConfig \<Rightarrow> PageTree io" where
  "getPageTree d config = call (GetPageTree config) (getPageTree_result d config)"

definition getCustomStyles :: "deps \<Rightarrow> string option io" where
  "getCustomStyles d = call GetCustomStyles (getCustomStyles_result d)"

definition showPanel :: "deps \<Rightarrow> Position \<Rightarrow> int \<Rightarrow> PanelHtml \<Rightarrow> PanelScript \<Rightarrow> unit io" where
  "showPanel d p sz html script =
     call (ShowPanel p sz html script)
       (case showPanel_error d p of Some e \<Rightarrow> Inl e | None \<Rightarrow> Inr ())"

definition hidePanel :: "deps \<Rightarrow> Position \<Rightarrow> unit io" where
  "hidePanel d p =
     call (HidePanel p) (case hidePanel_error d p of Some e \<Rightarrow> Inl e | None \<Rightarrow> Inr ())"

text \<open>
  Modelled from the spec: \<open>isTreeViewEnabled\<close> and \<open>setTreeViewEnabled\<close> of config.ts
  read and write the persisted boolean preference; a write that rejects stores nothing.
\<close>

definition isTreeViewEnabled :: "deps \<Rightarrow> bool io" where
  "isTreeViewEnabled d w =
     (case isTreeViewEnabled_error d of
        Some e \<Rightarrow> (Inl e, emit IsTreeViewEnabled w)
      | None \<Rightarrow> (Inr (preference w), emit IsTreeViewEnabled w))"

definition setTreeViewEnabled :: "deps \<Rightarrow> bool \<Rightarrow> unit io" where
  "setTreeViewEnabled d v w =
     (case setTreeViewEnabled_error d v of
        Some e \<Rightarrow> (Inl e, emit (SetTreeViewEnabled v) w)
      | None \<Rightarrow> (Inr (), (emit (SetTreeViewEnabled v) w)\<lparr>preference := v\<rparr>))"

text \<open>
  A promise that has been created but not awaited: the call that was issued for it, the
  time at which it settles and what it settles to.
\<close>

record 'a pending =
  issued :: event
  settledAt :: nat
  outcome :: "error + 'a"

definition readAsset :: "deps \<Rightarrow> string \<Rightarrow> string \<Rightarrow> string pending" where
  "readAsset d plug path =
     \<lparr>issued = ReadAsset plug path,
      settledAt = fst (readAsset_result d plug path),
      outcome = snd (readAsset_result d plug path)\<rparr>"

text \<open>
  \<open>Promise.all\<close>: every promise of the array exists before the join, so every call has
  been issued. The join rejects with the rejection that settles first (the earlier array
  element where two settle together) and otherwise fulfils with all values in array order.
\<close>

fun earliest_rejection :: "'a pending list \<Rightarrow> (nat \<times> error) option" where
  "earliest_rejection [] = None"
| "earliest_rejection (p # ps) =
     (case outcome p of
        Inr _ \<Rightarrow> earliest_rejection ps
      | Inl e \<Rightarrow>
          (case earliest_rejection ps of
             None \<Rightarrow> Some (settledAt p, e)
           | Some (t, e') \<Rightarrow> if t < settledAt p then Some (t, e') else Some (settledAt p, e)))"

fun fulfilled :: "'a pending list \<Rightarrow> 'a list" where
  "fulfilled [] = []"
| "fulfilled (p # ps) =
     (case outcome p of Inr v \<Rightarrow> v # fulfilled ps | Inl _ \<Rightarrow> fulfilled ps)"

definition join :: "'a pending list \<Rightarrow> error + 'a list" where
  "join ps =
     (case earliest_rejection ps of Some (t, e) \<Rightarrow> Inl e | None \<Rightarrow> Inr (fulfilled ps))"

definition Promise_all :: "'a pending list \<Rightarrow> 'a list io" where
  "Promise_all ps w = (join ps, w\<lparr>trace := trace w @ map issued ps\<rparr>)"

subsection \<open>treeview.ts\<close>

definition getAdaptivePosition :: "int option \<Rightarrow> TreeViewConfig \<Rightarrow> Position" where
  "getAdaptivePosition window config =
     (if \<not> autoMobileMode config then position config
      else
        let isMobile =
              (case window of
                 None \<Rightarrow> False
               | Some innerWidth \<Rightarrow> innerWidth \<le> mobileThreshold config)
        in if isMobile then Modal else position config)"

definition hideTree :: "deps \<Rightarrow> unit io" where
  "hideTree d =
     andThen read_currentPosition (\<lambda>cur.
       case cur of
         Some p \<Rightarrow>
           andThen (hidePanel d p) (\<lambda>_.
           andThen (write_currentPosition None) (\<lambda>_.
           setTreeViewEnabled d False))
       | None \<Rightarrow> resolve ())"

definition showTree :: "deps \<Rightarrow> unit io" where
  "showTree d =
     andThen (getPlugConfig d) (\<lambda>config.
     let adaptivePosition = getAdaptivePosition (window_innerWidth d) config in
     andThen read_currentPosition (\<lambda>cur.
     andThen
       (if cur \<noteq> None \<and> Some adaptivePosition \<noteq> cur then hideTree d else resolve ()) (\<lambda>_.
     andThen
       (Promise_all
          [readAsset d (PLUG_NAME d) ''assets/sortable-tree/sortable-tree.css'',
           readAsset d (PLUG_NAME d) ''assets/sortable-tree/sortable-tree.js'',
           readAsset d (PLUG_NAME d) ''assets/treeview.css'',
           readAsset d (PLUG_NAME d) ''assets/treeview.js'',
           readAsset d (PLUG_NAME d) ''assets/icons/folder-minus.svg'',
           readAsset d (PLUG_NAME d) ''assets/icons/folder-plus.svg'',
           readAsset d (PLUG_NAME d) ''assets/icons/navigation-2.svg'',
           readAsset d (PLUG_NAME d) ''assets/icons/refresh-cw.svg'',
           readAsset d (PLUG_NAME d) ''assets/icons/x-circle.svg'']) (\<lambda>assets.
     let sortableTreeCss = assets ! 0;
         sortableTreeJs = assets ! 1;
         plugCss = assets ! 2;
         plugJs = assets ! 3;
         iconFolderMinus = assets ! 4;
         iconFolderPlus = assets ! 5;
         iconNavigation2 = assets ! 6;
         iconRefresh = assets ! 7;
         iconXCircle = assets ! 8
     in
       andThen (getPageTree d config) (\<lambda>tree.
       andThen (getCustomStyles d) (\<lambda>customStyles.
       let treeViewConfig =
             \<lparr>ic_nodes = nodes tree,
              ic_currentPage = currentPage tree,
              ic_treeElementId = ''treeview-tree'',
              ic_dragAndDrop = (dragAndDrop config)\<lparr>enabled := enabled (dragAndDrop config)\<rparr>\<rparr>
       in
         andThen
           (showPanel d adaptivePosition (size_cfg config)
              \<lparr>html_sortableTreeCss = sortableTreeCss,
               html_plugCss = plugCss,
               html_customStyles = (case customStyles of Some s \<Rightarrow> s | None \<Rightarrow> ''''),
               html_iconFolderPlus = iconFolderPlus,
               html_iconFolderMinus = iconFolderMinus,
               html_iconNavigation2 = iconNavigation2,
               html_iconRefresh = iconRefresh,
               html_iconXCircle = iconXCircle,
               html_treeElementId = ic_treeElementId treeViewConfig\<rparr>
              \<lparr>js_sortableTreeJs = sortableTreeJs,
               js_plugJs = plugJs,
               js_initConfig = treeViewConfig,
               js_autoMobileMode = autoMobileMode config\<rparr>) (\<lambda>_.
         andThen (setTreeViewEnabled d True) (\<lambda>_.
         write_currentPosition (Some adaptivePosition)))))))))"

definition toggleTree :: "deps \<Rightarrow> unit io" where
  "toggleTree d =
     andThen (isTreeViewEnabled d) (\<lambda>currentValue.
       if \<not> currentValue then showTree d else hideTree d)"

definition showTreeIfEnabled :: "deps \<Rightarrow> unit io" where
  "showTreeIfEnabled d =
     try_catch
       (andThen (getEnv d) (\<lambda>env.
          if env = ''server'' then resolve ()
          else
            andThen (isTreeViewEnabled d) (\<lambda>en.
              if en then showTree d else resolve ())))
       (\<lambda>err w.
          (Inr (), emit (ConsoleError (PLUG_DISPLAY_NAME d @ '': showTreeIfEnabled failed'') err) w))"

subsection \<open>Vocabulary of the properties\<close>

text \<open>The paths of the nine static assets, in the order in which showTree reads them.\<close>

definition asset_paths :: "string list" where
  "asset_paths =
     [''assets/sortable-tree/sortable-tree.css'',
      ''assets/sortable-tree/sortable-tree.js'',
      ''assets/treeview.css'',
      ''assets/treeview.js'',
      ''assets/icons/folder-minus.svg'',
      ''assets/icons/folder-plus.svg'',
      ''assets/icons/navigation-2.svg'',
      ''assets/icons/refresh-cw.svg'',
      ''assets/icons/x-circle.svg'']"

definition assets :: "deps \<Rightarrow> string pending list" where
  "assets d = map (readAsset d (PLUG_NAME d)) asset_paths"

text \<open>The calls that an operation added to the trace.\<close>

definition issued_by :: "unit io \<Rightarrow> world \<Rightarrow> event list" where
  "issued_by m w = drop (length (trace w)) (trace (snd (m w)))"

fun is_showPanel :: "event \<Rightarrow> bool" where
  "is_showPanel (ShowPanel p sz html script) = True"
| "is_showPanel _ = False"

fun is_hidePanel :: "event \<Rightarrow> bool" where
  "is_hidePanel (HidePanel p) = True"
| "is_hidePanel _ = False"

definition showPanel_calls :: "event list \<Rightarrow> nat" where
  "showPanel_calls evs = length (filter is_showPanel evs)"

definition hidePanel_calls :: "event list \<Rightarrow> nat" where
  "hidePanel_calls evs = length (filter is_hidePanel evs)"

text \<open>
  The part of showTree that follows the hide step (lines 89 to 169): the batch of asset
  reads, the two fetches, \<open>showPanel\<close>, the write of the preference and the assignment.
  \<open>showTree_split\<close> below shows that showTree is the hide step followed by it.
\<close>

definition fetch_and_show :: "deps \<Rightarrow> TreeViewConfig \<Rightarrow> Position \<Rightarrow> unit io" where
  "fetch_and_show d config adaptivePosition =
     andThen
       (Promise_all
          [readAsset d (PLUG_NAME d) ''assets/sortable-tree/sortable-tree.css'',
           readAsset d (PLUG_NAME d) ''assets/sortable-tree/sortable-tree.js'',
           readAsset d (PLUG_NAME d) ''assets/treeview.css'',
           readAsset d (PLUG_NAME d) ''assets/treeview.js'',
           readAsset d (PLUG_NAME d) ''assets/icons/folder-minus.svg'',
           readAsset d (PLUG_NAME d) ''assets/icons/folder-plus.svg'',
           readAsset d (PLUG_NAME d) ''assets/icons/navigation-2.svg'',
           readAsset d (PLUG_NAME d) ''assets/icons/refresh-cw.svg'',
           readAsset d (PLUG_NAME d) ''assets/icons/x-circle.svg'']) (\<lambda>assets.
     let sortableTreeCss = assets ! 0;
         sortableTreeJs = assets ! 1;
         plugCss = assets ! 2;
         plugJs = assets ! 3;
         iconFolderMinus = assets ! 4;
         iconFolderPlus = assets ! 5;
         iconNavigation2 = assets ! 6;
         iconRefresh = assets ! 7;
         iconXCircle = assets ! 8
     in
       andThen (getPageTree d config) (\<lambda>tree.
       andThen (getCustomStyles d) (\<lambda>customStyles.
       let treeViewConfig =
             \<lparr>ic_nodes = nodes tree,
              ic_currentPage = currentPage tree,
              ic_treeElementId = ''treeview-tree'',
              ic_dragAndDrop = (dragAndDrop config)\<lparr>enabled := enabled (dragAndDrop config)\<rparr>\<rparr>
       in
         andThen
           (showPanel d adaptivePosition (size_cfg config)
              \<lparr>html_sortableTreeCss = sortableTreeCss,
               html_plugCss = plugCss,
               html_customStyles = (case customStyles of Some s \<Rightarrow> s | None \<Rightarrow> ''''),
               html_iconFolderPlus = iconFolderPlus,
               html_iconFolderMinus = iconFolderMinus,
               html_iconNavigation2 = iconNavigation2,
               html_iconRefresh = iconRefresh,
               html_iconXCircle = iconXCircle,
               html_treeElementId = ic_treeElementId treeViewConfig\<rparr>
              \<lparr>js_sortableTreeJs = sortableTreeJs,
               js_plugJs = plugJs,
               js_initConfig = treeViewConfig,
               js_autoMobileMode = autoMobileMode config\<rparr>) (\<lambda>_.
         andThen (setTreeViewEnabled d True) (\<lambda>_.
         write_currentPosition (Some adaptivePosition))))))"

text \<open>
  The calls of the hide step of showTree when it runs to its end: none when the tree is
  hidden or shown at the target \<open>t\<close>, the hide sequence when it is shown elsewhere.
\<close>

definition hide_calls :: "Position \<Rightarrow> world \<Rightarrow> event list" where
  "hide_calls t w =
     (case currentPosition w of
        None \<Rightarrow> []
      | Some p \<Rightarrow> if p = t then [] else [HidePanel p, SetTreeViewEnabled False])"

text \<open>
  The hide step of showTree does not reject: there is nothing to hide, or \<open>hidePanel\<close>
  and the write of the preference both fulfil.
\<close>

definition hide_step_succeeds :: "deps \<Rightarrow> Position \<Rightarrow> world \<Rightarrow> bool" where
  "hide_step_succeeds d t w =
     (case currentPosition w of
        None \<Rightarrow> True
      | Some p \<Rightarrow>
          p = t \<or> (hidePanel_error d p = None \<and> setTreeViewEnabled_error d False = None))"

text \<open>
  toggleTree called once for each element of a list, each call with its own answers of
  the collaborators, whatever each call returns.
\<close>

fun toggleTree_repeatedly :: "deps list \<Rightarrow> world \<Rightarrow> world" where
  "toggleTree_repeatedly [] w = w"
| "toggleTree_repeatedly (d # ds) w = toggleTree_repeatedly ds (snd (toggleTree d w))"

text \<open>Sample collaborators: every call fulfils; the viewport is 1280 pixels wide.\<close>

definition sample_config :: TreeViewConfig where
  "sample_config =
     \<lparr>position = Left, autoMobileMode = True, mobileThreshold = 768, size_cfg = 1,
      dragAndDrop = \<lparr>enabled = True\<rparr>\<rparr>"

definition sample_tree :: PageTree where
  "sample_tree = \<lparr>currentPage = ''index'', nodes = [TreeNode ''index'' []]\<rparr>"

definition sample_deps :: deps where
  "sample_deps =
     \<lparr>PLUG_NAME = ''treeview'',
      PLUG_DISPLAY_NAME = ''TreeView'',
      window_innerWidth = Some 1280,
      getEnv_result = Inr ''client'',
      isTreeViewEnabled_error = None,
      setTreeViewEnabled_error = (\<lambda>v. None),
      getPlugConfig_result = Inr sample_config,
      readAsset_result = (\<lambda>plug path. (0, Inr path)),
      getPageTree_result = (\<lambda>config. Inr sample_tree),
      getCustomStyles_result = Inr None,
      showPanel_error = (\<lambda>p. None),
      hidePanel_error = (\<lambda>p. None)\<rparr>"

definition hidden :: world where
  "hidden = \<lparr>currentPosition = None, preference = False, trace = []\<rparr>"

definition shown_right :: world where
  "shown_right = \<lparr>currentPosition = Some Right, preference = True, trace = []\<rparr>"

definition shown_left :: world where
  "shown_left = \<lparr>currentPosition = Some Left, preference = True, trace = []\<rparr>"

definition enabled_hidden :: world where
  "enabled_hidden = \<lparr>currentPosition = None, preference = True, trace = []\<rparr>"

text \<open>The same collaborators, except for one answer.\<close>

definition deps_server :: deps where
  "deps_server = sample_deps\<lparr>getEnv_result := Inr ''server''\<rparr>"

definition deps_env_fails :: deps where
  "deps_env_fails = sample_deps\<lparr>getEnv_result := Inl (Error ''no env'')\<rparr>"

definition deps_hide_fails :: deps where
  "deps_hide_fails = sample_deps\<lparr>hidePanel_error := (\<lambda>p. Some (Error ''no hide''))\<rparr>"

definition deps_asset_fails :: deps where
  "deps_asset_fails =
     sample_deps\<lparr>readAsset_result := (\<lambda>plug path.
       if path = ''assets/treeview.css'' then (0, Inl (Error ''no asset'')) else (0, Inr path))\<rparr>"

definition deps_write_fails :: deps where
  "deps_write_fails =
     sample_deps\<lparr>setTreeViewEnabled_error := (\<lambda>v. if v then Some (Error ''no store'') else None)\<rparr>"

definition deps_tree_fails :: deps where
  "deps_tree_fails = sample_deps\<lparr>getPageTree_result := (\<lambda>config. Inl (Error ''no tree''))\<rparr>"

section \<open>Basic facts\<close>

lemmas io_defs =
  andThen_def resolve_def call_def emit_def read_currentPosition_def
  write_currentPosition_def getEnv_def getPlugConfig_def getPageTree_def getCustomStyles_def
  showPanel_def hidePanel_def isTreeViewEnabled_def setTreeViewEnabled_def Promise_all_def
  try_catch_def

lemmas sample_defs =
  sample_config_def sample_tree_def sample_deps_def hidden_def shown_right_def shown_left_def
  deps_tree_fails_def enabled_hidden_def deps_server_def deps_env_fails_def deps_hide_fails_def
  deps_asset_fails_def deps_write_fails_def

lemmas run_defs =
  io_defs sample_defs getAdaptivePosition_def join_def readAsset_def issued_by_def

lemma assets_list:
  "[readAsset d (PLUG_NAME d) ''assets/sortable-tree/sortable-tree.css'',
    readAsset d (PLUG_NAME d) ''assets/sortable-tree/sortable-tree.js'',
    readAsset d (PLUG_NAME d) ''assets/treeview.css'',
    readAsset d (PLUG_NAME d) ''assets/treeview.js'',
    readAsset d (PLUG_NAME d) ''assets/icons/folder-minus.svg'',
    readAsset d (PLUG_NAME d) ''assets/icons/folder-plus.svg'',
    readAsset d (PLUG_NAME d) ''assets/icons/navigation-2.svg'',
    readAsset d (PLUG_NAME d) ''assets/icons/refresh-cw.svg'',
    readAsset d (PLUG_NAME d) ''assets/icons/x-circle.svg''] = assets d"
  by (simp add: assets_def asset_paths_def)

lemma issued_assets: "map issued (assets d) = map (ReadAsset (PLUG_NAME d)) asset_paths"
  by (simp add: assets_def readAsset_def)

lemma earliest_rejection_None:
  "earliest_rejection ps = None \<longleftrightarrow> (\<forall>p\<in>set ps. \<not> isl (outcome p))"
  by (induction ps) (auto split: sum.splits option.splits)

lemma join_Inr_iff: "(\<exists>vs. join ps = Inr vs) \<longleftrightarrow> (\<forall>p\<in>set ps. \<not> isl (outcome p))"
  using earliest_rejection_None [of ps] by (auto simp: join_def split: option.splits)

text \<open>A join that rejects does so with the error of one of its promises.\<close>

lemma earliest_rejection_Some:
  "earliest_rejection ps = Some (t, e) \<Longrightarrow> \<exists>p\<in>set ps. outcome p = Inl e \<and> settledAt p = t"
  by (induction ps arbitrary: t e) (auto split: sum.splits option.splits if_splits)

lemma join_Inl: "join ps = Inl e \<Longrightarrow> \<exists>p\<in>set ps. outcome p = Inl e"
  using earliest_rejection_Some [of ps] by (auto simp: join_def split: option.splits)

text \<open>A join of promises that all fulfil gives their values, in the order of the array.\<close>

lemma join_fulfilled: "map outcome ps = map Inr vs \<Longrightarrow> join ps = Inr vs"
proof -
  assume "map outcome ps = map Inr vs"
  then have "earliest_rejection ps = None \<and> fulfilled ps = vs"
    by (induction ps arbitrary: vs) auto
  then show ?thesis
    by (simp add: join_def)
qed

lemma filter_showPanel_reads [simp]: "filter is_showPanel (map (ReadAsset n) ps) = []"
  by (induction ps) simp_all

lemma filter_hidePanel_reads [simp]: "filter is_hidePanel (map (ReadAsset n) ps) = []"
  by (induction ps) simp_all

lemma length_asset_paths: "length asset_paths = 9"
  by (simp add: asset_paths_def)

lemma join_sample: "join (assets sample_deps) = Inr asset_paths"
  by (simp add: join_def assets_def asset_paths_def readAsset_def sample_deps_def)

subsection \<open>The runs of showTree\<close>

lemma showTree_split:
  "showTree d =
     andThen (getPlugConfig d) (\<lambda>config.
     andThen read_currentPosition (\<lambda>cur.
     andThen
       (if cur \<noteq> None \<and> Some (getAdaptivePosition (window_innerWidth d) config) \<noteq> cur
        then hideTree d else resolve ()) (\<lambda>_.
     fetch_and_show d config (getAdaptivePosition (window_innerWidth d) config))))"
  by (simp add: showTree_def fetch_and_show_def Let_def)

text \<open>The six ways in which the part after the hide step can end.\<close>

lemma fetch_and_show_cases:
  obtains
    (assets_fail) e where
      "join (assets d) = Inl e"
      "fetch_and_show d config t w =
         (Inl e, w\<lparr>trace := trace w @ map (ReadAsset (PLUG_NAME d)) asset_paths\<rparr>)"
  | (tree_fails) vs e where
      "join (assets d) = Inr vs" "getPageTree_result d config = Inl e"
      "fetch_and_show d config t w =
         (Inl e, w\<lparr>trace := trace w @ map (ReadAsset (PLUG_NAME d)) asset_paths @
            [GetPageTree config]\<rparr>)"
  | (styles_fail) vs tree e where
      "join (assets d) = Inr vs" "getPageTree_result d config = Inr tree"
      "getCustomStyles_result d = Inl e"
      "fetch_and_show d config t w =
         (Inl e, w\<lparr>trace := trace w @ map (ReadAsset (PLUG_NAME d)) asset_paths @
            [GetPageTree config, GetCustomStyles]\<rparr>)"
  | (show_fails) vs tree styles e html script where
      "join (assets d) = Inr vs" "getPageTree_result d config = Inr tree"
      "getCustomStyles_result d = Inr styles" "showPanel_error d t = Some e"
      "fetch_and_show d config t w =
         (Inl e, w\<lparr>trace := trace w @ map (ReadAsset (PLUG_NAME d)) asset_paths @
            [GetPageTree config, GetCustomStyles, ShowPanel t (size_cfg config) html script]\<rparr>)"
  | (write_fails) vs tree styles e html script where
      "join (assets d) = Inr vs" "getPageTree_result d config = Inr tree"
      "getCustomStyles_result d = Inr styles" "showPanel_error d t = None"
      "setTreeViewEnabled_error d True = Some e"
      "fetch_and_show d config t w =
         (Inl e, w\<lparr>trace := trace w @ map (ReadAsset (PLUG_NAME d)) asset_paths @
            [GetPageTree config, GetCustomStyles, ShowPanel t (size_cfg config) html script,
             SetTreeViewEnabled True]\<rparr>)"
  | (shown) vs tree styles html script where
      "join (assets d) = Inr vs" "getPageTree_result d config = Inr tree"
      "getCustomStyles_result d = Inr styles" "showPanel_error d t = None"
      "setTreeViewEnabled_error d True = None"
      "fetch_and_show d config t w =
         (Inr (), w\<lparr>trace := trace w @ map (ReadAsset (PLUG_NAME d)) asset_paths @
            [GetPageTree config, GetCustomStyles, ShowPanel t (size_cfg config) html script,
             SetTreeViewEnabled True],
            preference := True, currentPosition := Some t\<rparr>)"
proof (cases "join (assets d)")
  case (Inl e)
  then show ?thesis
    by (intro assets_fail [of e]) (simp_all add: fetch_and_show_def assets_list issued_assets io_defs)
next
  case vs: (Inr vs)
  show ?thesis
  proof (cases "getPageTree_result d config")
    case (Inl e)
    with vs show ?thesis
      by (intro tree_fails [of vs e])
        (simp_all add: fetch_and_show_def assets_list issued_assets io_defs Let_def)
  next
    case tree: (Inr tree)
    show ?thesis
    proof (cases "getCustomStyles_result d")
      case (Inl e)
      with vs tree show ?thesis
        by (intro styles_fail [of vs tree e])
          (simp_all add: fetch_and_show_def assets_list issued_assets io_defs Let_def)
    next
      case styles: (Inr styles)
      show ?thesis
      proof (cases "showPanel_error d t")
        case (Some e)
        with vs tree styles show ?thesis
          by (intro show_fails [of vs tree styles e])
            (simp_all add: fetch_and_show_def assets_list issued_assets io_defs Let_def)
      next
        case None
        show ?thesis
        proof (cases "setTreeViewEnabled_error d True")
          case (Some e)
          with vs tree styles None show ?thesis
            by (intro write_fails [of vs tree styles e])
              (simp_all add: fetch_and_show_def assets_list issued_assets io_defs Let_def)
        next
          case none: None
          with vs tree styles None show ?thesis
            by (intro shown [of vs tree styles])
              (simp_all add: fetch_and_show_def assets_list issued_assets io_defs Let_def)
        qed
      qed
    qed
  qed
qed


text \<open>
  The calls of the part after the hide step when the three fetches fulfil, with the
  payload of \<open>showPanel\<close> written out.
\<close>

lemma fetch_and_show_fulfilled:
  assumes "join (assets d) = Inr vs"
      and "getPageTree_result d config = Inr tree"
      and "getCustomStyles_result d = Inr styles"
  shows "trace (snd (fetch_and_show d config t w)) =
           trace w @ map (ReadAsset (PLUG_NAME d)) asset_paths @
           [GetPageTree config, GetCustomStyles,
            ShowPanel t (size_cfg config)
              \<lparr>html_sortableTreeCss = vs ! 0,
               html_plugCss = vs ! 2,
               html_customStyles = (case styles of Some s \<Rightarrow> s | None \<Rightarrow> ''''),
               html_iconFolderPlus = vs ! 5,
               html_iconFolderMinus = vs ! 4,
               html_iconNavigation2 = vs ! 6,
               html_iconRefresh = vs ! 7,
               html_iconXCircle = vs ! 8,
               html_treeElementId = ''treeview-tree''\<rparr>
              \<lparr>js_sortableTreeJs = vs ! 1,
               js_plugJs = vs ! 3,
               js_initConfig =
                 \<lparr>ic_nodes = nodes tree,
                  ic_currentPage = currentPage tree,
                  ic_treeElementId = ''treeview-tree'',
                  ic_dragAndDrop = dragAndDrop config\<rparr>,
               js_autoMobileMode = autoMobileMode config\<rparr>] @
           (if showPanel_error d t = None then [SetTreeViewEnabled True] else [])"
  using assms
  by (simp add: fetch_and_show_def assets_list issued_assets io_defs Let_def
      split: option.splits)

text \<open>
  The four ways in which the hide step of showTree can end, once the configuration has
  been loaded: the hide fails at \<open>hidePanel\<close> or at the write of the preference, there is
  nothing to hide, or the old panel has been hidden.
\<close>

lemma showTree_cases:
  assumes "getPlugConfig_result d = Inr config"
      and "t = getAdaptivePosition (window_innerWidth d) config"
  obtains
    (hide_fails) p e where
      "currentPosition w = Some p" "p \<noteq> t" "hidePanel_error d p = Some e"
      "showTree d w = (Inl e, w\<lparr>trace := trace w @ [GetPlugConfig, HidePanel p]\<rparr>)"
  | (off_fails) p e where
      "currentPosition w = Some p" "p \<noteq> t" "hidePanel_error d p = None"
      "setTreeViewEnabled_error d False = Some e"
      "showTree d w =
         (Inl e, w\<lparr>trace := trace w @ [GetPlugConfig, HidePanel p, SetTreeViewEnabled False],
            currentPosition := None\<rparr>)"
  | (stays) w1 where
      "currentPosition w = None \<or> currentPosition w = Some t"
      "w1 = w\<lparr>trace := trace w @ [GetPlugConfig]\<rparr>"
      "showTree d w = fetch_and_show d config t w1"
  | (hidden_first) p w1 where
      "currentPosition w = Some p" "p \<noteq> t" "hidePanel_error d p = None"
      "setTreeViewEnabled_error d False = None"
      "w1 = w\<lparr>currentPosition := None,
              trace := trace w @ [GetPlugConfig, HidePanel p, SetTreeViewEnabled False],
              preference := False\<rparr>"
      "showTree d w = fetch_and_show d config t w1"
proof (cases "currentPosition w = None \<or> currentPosition w = Some t")
  case True
  with assms show ?thesis
    by (intro stays [of "w\<lparr>trace := trace w @ [GetPlugConfig]\<rparr>"])
      (auto simp add: showTree_split io_defs)
next
  case False
  then obtain p where p: "currentPosition w = Some p" "p \<noteq> t"
    by (cases "currentPosition w") auto
  show ?thesis
  proof (cases "hidePanel_error d p")
    case (Some e)
    with assms p show ?thesis
      by (intro hide_fails [of p e]) (auto simp add: showTree_split hideTree_def io_defs)
  next
    case None
    show ?thesis
    proof (cases "setTreeViewEnabled_error d False")
      case (Some e)
      with assms p None show ?thesis
        by (intro off_fails [of p e]) (auto simp add: showTree_split hideTree_def io_defs)
    next
      case none: None
      with assms p None show ?thesis
        by (intro hidden_first [of p "w\<lparr>currentPosition := None,
              trace := trace w @ [GetPlugConfig, HidePanel p, SetTreeViewEnabled False],
              preference := False\<rparr>"])
          (auto simp add: showTree_split hideTree_def io_defs)
    qed
  qed
qed

lemmas count_defs = issued_by_def showPanel_calls_def hidePanel_calls_def image_iff

section \<open>The position resolver\<close>

text \<open>
  C8. With \<open>autoMobileMode\<close> off, the position resolver returns the configured position,
  whatever the viewport width is and whether there is a viewport or not.
\<close>

theorem getAdaptivePosition_fixed:
  "\<not> autoMobileMode config \<Longrightarrow> getAdaptivePosition window config = position config"
  by (simp add: getAdaptivePosition_def)

theorem getAdaptivePosition_fixed_witness:
  "\<not> autoMobileMode (sample_config\<lparr>autoMobileMode := False\<rparr>) \<and>
   getAdaptivePosition (Some 320) (sample_config\<lparr>autoMobileMode := False\<rparr>) = Left \<and>
   getAdaptivePosition None (sample_config\<lparr>autoMobileMode := False\<rparr>) = Left"
proof -
  have off: "\<not> autoMobileMode (sample_config\<lparr>autoMobileMode := False\<rparr>)"
    by simp
  from getAdaptivePosition_fixed [OF off, of "Some 320"]
    getAdaptivePosition_fixed [OF off, of None]
  show ?thesis by (simp add: sample_config_def)
qed

text \<open>
  C4, as stated, says that with \<open>autoMobileMode\<close> on and a viewport of width \<open>w\<close> the
  resolver returns \<open>"modal"\<close> if and only if \<open>w \<le> mobileThreshold\<close>. A configuration
  whose own position is \<open>"modal"\<close> gets \<open>"modal"\<close> on a wide viewport too.
\<close>

theorem getAdaptivePosition_modal_configured:
  "autoMobileMode (sample_config\<lparr>position := Modal\<rparr>) \<and>
   \<not> (getAdaptivePosition (Some 1280) (sample_config\<lparr>position := Modal\<rparr>) = Modal \<longleftrightarrow>
      1280 \<le> mobileThreshold (sample_config\<lparr>position := Modal\<rparr>))"
  by (simp add: getAdaptivePosition_def sample_config_def)

text \<open>
  C4, amended. With \<open>autoMobileMode\<close> on and a viewport of width \<open>w\<close>, the resolver returns
  \<open>"modal"\<close> when \<open>w \<le> mobileThreshold\<close> and the configured position otherwise; so it
  returns \<open>"modal"\<close> exactly when \<open>w \<le> mobileThreshold\<close> or the configured position is
  \<open>"modal"\<close> already. Without a viewport it returns the configured position.
\<close>

theorem getAdaptivePosition_adaptive:
  assumes "autoMobileMode config"
  shows "getAdaptivePosition (Some w) config =
           (if w \<le> mobileThreshold config then Modal else position config) \<and>
         (getAdaptivePosition (Some w) config = Modal \<longleftrightarrow>
            w \<le> mobileThreshold config \<or> position config = Modal) \<and>
         getAdaptivePosition None config = position config"
  using assms by (simp add: getAdaptivePosition_def)

theorem getAdaptivePosition_adaptive_witness:
  "autoMobileMode sample_config \<and>
   getAdaptivePosition (Some 768) sample_config = Modal \<and>
   getAdaptivePosition (Some 769) sample_config = Left \<and>
   getAdaptivePosition None sample_config = Left"
proof -
  have on: "autoMobileMode sample_config"
    by (simp add: sample_config_def)
  from getAdaptivePosition_adaptive [OF on, of 768]
    getAdaptivePosition_adaptive [OF on, of 769]
  show ?thesis by (simp add: sample_config_def)
qed

section \<open>showTree when the page tree cannot be fetched\<close>

text \<open>
  C1, as stated, says that from every starting state a rejection of \<open>getPageTree\<close> leaves
  \<open>currentPosition\<close> and the preference as they were before the call. When the tree is
  shown on the right and the configured position is now the left, showTree has hidden the
  old panel before it fetches anything: the page-tree error comes out, and the state is
  hidden with the preference off.
\<close>

theorem showTree_getPageTree_rejects_after_hide:
  "getPageTree_result deps_tree_fails sample_config = Inl (Error ''no tree'') \<and>
   GetPageTree sample_config \<in> set (issued_by (showTree deps_tree_fails) shown_right) \<and>
   fst (showTree deps_tree_fails shown_right) = Inl (Error ''no tree'') \<and>
   currentPosition shown_right = Some Right \<and>
   preference shown_right = True \<and>
   currentPosition (snd (showTree deps_tree_fails shown_right)) = None \<and>
   preference (snd (showTree deps_tree_fails shown_right)) = False"
  by (simp add: showTree_def hideTree_def run_defs)

text \<open>
  C1, amended. If \<open>getPageTree\<close> is called during showTree and rejects, showTree rejects
  with that same error. When the tree was hidden, or shown at the resolved target position,
  before the call, \<open>currentPosition\<close> and the preference are unchanged; when it was shown at
  another position, the hide sequence has run already, so \<open>currentPosition\<close> is absent and
  the preference is false.
\<close>

theorem showTree_getPageTree_rejects:
  assumes "getPlugConfig_result d = Inr config"
      and "GetPageTree config \<in> set (issued_by (showTree d) w)"
      and "getPageTree_result d config = Inl e"
  shows "fst (showTree d w) = Inl e \<and>
         (if currentPosition w = None \<or>
             currentPosition w = Some (getAdaptivePosition (window_innerWidth d) config)
          then currentPosition (snd (showTree d w)) = currentPosition w \<and>
               preference (snd (showTree d w)) = preference w
          else currentPosition (snd (showTree d w)) = None \<and>
               preference (snd (showTree d w)) = False)"
  using assms
  by (auto simp add: showTree_def hideTree_def assets_list issued_assets issued_by_def io_defs
      Let_def split: sum.splits option.splits if_splits)

theorem showTree_getPageTree_rejects_witness:
  "getPlugConfig_result deps_tree_fails = Inr sample_config \<and>
   GetPageTree sample_config \<in> set (issued_by (showTree deps_tree_fails) shown_left) \<and>
   GetPageTree sample_config \<in> set (issued_by (showTree deps_tree_fails) shown_right) \<and>
   getPageTree_result deps_tree_fails sample_config = Inl (Error ''no tree'') \<and>
   fst (showTree deps_tree_fails shown_left) = Inl (Error ''no tree'') \<and>
   currentPosition (snd (showTree deps_tree_fails shown_left)) = Some Left \<and>
   preference (snd (showTree deps_tree_fails shown_left)) = True \<and>
   fst (showTree deps_tree_fails shown_right) = Inl (Error ''no tree'') \<and>
   currentPosition (snd (showTree deps_tree_fails shown_right)) = None \<and>
   preference (snd (showTree deps_tree_fails shown_right)) = False"
proof -
  have config: "getPlugConfig_result deps_tree_fails = Inr sample_config"
    by (simp add: sample_defs)
  have rejects: "getPageTree_result deps_tree_fails sample_config = Inl (Error ''no tree'')"
    by (simp add: sample_defs)
  have left: "GetPageTree sample_config \<in> set (issued_by (showTree deps_tree_fails) shown_left)"
    by (simp add: showTree_def hideTree_def run_defs)
  have right: "GetPageTree sample_config \<in> set (issued_by (showTree deps_tree_fails) shown_right)"
    by (simp add: showTree_def hideTree_def run_defs)
  have target: "getAdaptivePosition (window_innerWidth deps_tree_fails) sample_config = Left"
    by (simp add: sample_defs getAdaptivePosition_def)
  from showTree_getPageTree_rejects [OF config left rejects]
    showTree_getPageTree_rejects [OF config right rejects]
  show ?thesis
    unfolding target using config rejects left right
    by (simp add: shown_left_def shown_right_def)
qed

section \<open>hideTree and toggleTree\<close>

text \<open>
  C6. hideTree is idempotent. When the tree is hidden it does nothing: no call, no change
  of the state or of the preference. From a tree shown at \<open>p\<close>, with a host that hides the
  panel, the first call invokes \<open>hidePanel\<close> once and leaves the state hidden, and a second
  call (whatever its collaborators would answer) issues no call and leaves everything as
  it is.
\<close>

theorem hideTree_idempotent:
  "(currentPosition w = None \<longrightarrow> hideTree d w = (Inr (), w)) \<and>
   (currentPosition w = Some p \<and> hidePanel_error d p = None \<longrightarrow>
      currentPosition (snd (hideTree d w)) = None \<and>
      hidePanel_calls (issued_by (hideTree d) w) = 1 \<and>
      hideTree d' (snd (hideTree d w)) = (Inr (), snd (hideTree d w)) \<and>
      hidePanel_calls (issued_by (hideTree d') (snd (hideTree d w))) = 0)"
  by (auto simp add: hideTree_def io_defs issued_by_def hidePanel_calls_def split: option.splits)

theorem hideTree_idempotent_witness:
  "currentPosition hidden = None \<and>
   hideTree deps_hide_fails hidden = (Inr (), hidden) \<and>
   currentPosition shown_left = Some Left \<and>
   hidePanel_error sample_deps Left = None \<and>
   currentPosition (snd (hideTree sample_deps shown_left)) = None \<and>
   hidePanel_calls (issued_by (hideTree sample_deps) shown_left) = 1 \<and>
   hideTree deps_hide_fails (snd (hideTree sample_deps shown_left)) =
     (Inr (), snd (hideTree sample_deps shown_left)) \<and>
   hidePanel_calls
     (issued_by (hideTree deps_hide_fails) (snd (hideTree sample_deps shown_left))) = 0"
proof -
  have h: "currentPosition hidden = None"
    by (simp add: hidden_def)
  have s: "currentPosition shown_left = Some Left \<and> hidePanel_error sample_deps Left = None"
    by (simp add: shown_left_def sample_deps_def)
  from hideTree_idempotent [of hidden deps_hide_fails]
    hideTree_idempotent [of shown_left sample_deps Left deps_hide_fails]
  show ?thesis using h s by simp
qed

text \<open>
  C9. When the preference is true and \<open>currentPosition\<close> is absent, toggleTree reads the
  preference and calls hideTree, which does nothing: neither \<open>showPanel\<close> nor \<open>hidePanel\<close>
  is invoked, the preference stays true and \<open>currentPosition\<close> stays absent. The state
  after the call is again of this kind, so any number of further calls does the same.
\<close>

theorem toggleTree_stuck:
  assumes "preference w" and "currentPosition w = None"
  shows "issued_by (toggleTree d) w = [IsTreeViewEnabled] \<and>
         showPanel_calls (issued_by (toggleTree d) w) = 0 \<and>
         hidePanel_calls (issued_by (toggleTree d) w) = 0 \<and>
         preference (snd (toggleTree d w)) \<and>
         currentPosition (snd (toggleTree d w)) = None \<and>
         preference (toggleTree_repeatedly ds w) \<and>
         currentPosition (toggleTree_repeatedly ds w) = None \<and>
         trace (toggleTree_repeatedly ds w) = trace w @ replicate (length ds) IsTreeViewEnabled"
proof -
  have step: "snd (toggleTree d w) = w\<lparr>trace := trace w @ [IsTreeViewEnabled]\<rparr>"
    if "preference w" and "currentPosition w = None" for d w
    using that by (simp add: toggleTree_def hideTree_def io_defs split: option.splits)
  have rep: "preference (toggleTree_repeatedly ds w) \<and>
         currentPosition (toggleTree_repeatedly ds w) = None \<and>
         trace (toggleTree_repeatedly ds w) = trace w @ replicate (length ds) IsTreeViewEnabled"
    using assms
  proof (induction ds arbitrary: w)
    case Nil
    then show ?case by simp
  next
    case (Cons d ds)
    have s: "snd (toggleTree d w) = w\<lparr>trace := trace w @ [IsTreeViewEnabled]\<rparr>"
      using Cons.prems by (rule step)
    have "preference (w\<lparr>trace := trace w @ [IsTreeViewEnabled]\<rparr>)"
      and "currentPosition (w\<lparr>trace := trace w @ [IsTreeViewEnabled]\<rparr>) = None"
      using Cons.prems by simp_all
    from Cons.IH [OF this] show ?case
      by (simp add: s replicate_append_same)
  qed
  from step [OF assms, of d] rep show ?thesis
    using assms by (simp add: issued_by_def showPanel_calls_def hidePanel_calls_def)
qed

theorem toggleTree_stuck_witness:
  "preference enabled_hidden \<and>
   currentPosition enabled_hidden = None \<and>
   issued_by (toggleTree sample_deps) enabled_hidden = [IsTreeViewEnabled] \<and>
   preference (snd (toggleTree sample_deps enabled_hidden)) \<and>
   currentPosition (snd (toggleTree sample_deps enabled_hidden)) = None \<and>
   preference (toggleTree_repeatedly [sample_deps, sample_deps, sample_deps] enabled_hidden) \<and>
   currentPosition
     (toggleTree_repeatedly [sample_deps, sample_deps, sample_deps] enabled_hidden) = None \<and>
   trace (toggleTree_repeatedly [sample_deps, sample_deps, sample_deps] enabled_hidden) =
     [IsTreeViewEnabled, IsTreeViewEnabled, IsTreeViewEnabled]"
proof -
  have p: "preference enabled_hidden"
    by (simp add: enabled_hidden_def)
  have c: "currentPosition enabled_hidden = None"
    by (simp add: enabled_hidden_def)
  have t: "trace enabled_hidden = []"
    by (simp add: enabled_hidden_def)
  from toggleTree_stuck [OF p c, of sample_deps "[sample_deps, sample_deps, sample_deps]"]
  show ?thesis using p c by (simp add: t numeral_3_eq_3)
qed

text \<open>
  C5. From the hidden state with the preference false, and collaborators that fulfil every
  call, toggleTree invokes \<open>showPanel\<close> exactly once (and \<open>hidePanel\<close> not at all) and the
  preference becomes true; a second toggleTree then invokes \<open>hidePanel\<close> exactly once (and
  \<open>showPanel\<close> not at all) and the preference becomes false.
\<close>

theorem toggleTree_twice:
  assumes "currentPosition w = None" and "\<not> preference w"
      and "isTreeViewEnabled_error d1 = None"
      and "getPlugConfig_result d1 = Inr config"
      and "join (assets d1) = Inr vs"
      and "getPageTree_result d1 config = Inr tree"
      and "getCustomStyles_result d1 = Inr styles"
      and "showPanel_error d1 (getAdaptivePosition (window_innerWidth d1) config) = None"
      and "setTreeViewEnabled_error d1 True = None"
      and "isTreeViewEnabled_error d2 = None"
      and "hidePanel_error d2 (getAdaptivePosition (window_innerWidth d1) config) = None"
      and "setTreeViewEnabled_error d2 False = None"
  shows "fst (toggleTree d1 w) = Inr () \<and>
         showPanel_calls (issued_by (toggleTree d1) w) = 1 \<and>
         hidePanel_calls (issued_by (toggleTree d1) w) = 0 \<and>
         preference (snd (toggleTree d1 w)) \<and>
         fst (toggleTree d2 (snd (toggleTree d1 w))) = Inr () \<and>
         hidePanel_calls (issued_by (toggleTree d2) (snd (toggleTree d1 w))) = 1 \<and>
         showPanel_calls (issued_by (toggleTree d2) (snd (toggleTree d1 w))) = 0 \<and>
         \<not> preference (snd (toggleTree d2 (snd (toggleTree d1 w))))"
  using assms
  by (simp add: issued_by_def showPanel_calls_def hidePanel_calls_def toggleTree_def
      showTree_def hideTree_def assets_list issued_assets asset_paths_def io_defs Let_def)

theorem toggleTree_twice_witness:
  "currentPosition hidden = None \<and>
   \<not> preference hidden \<and>
   fst (toggleTree sample_deps hidden) = Inr () \<and>
   showPanel_calls (issued_by (toggleTree sample_deps) hidden) = 1 \<and>
   hidePanel_calls (issued_by (toggleTree sample_deps) hidden) = 0 \<and>
   preference (snd (toggleTree sample_deps hidden)) \<and>
   fst (toggleTree sample_deps (snd (toggleTree sample_deps hidden))) = Inr () \<and>
   hidePanel_calls
     (issued_by (toggleTree sample_deps) (snd (toggleTree sample_deps hidden))) = 1 \<and>
   showPanel_calls
     (issued_by (toggleTree sample_deps) (snd (toggleTree sample_deps hidden))) = 0 \<and>
   \<not> preference (snd (toggleTree sample_deps (snd (toggleTree sample_deps hidden))))"
proof -
  have w: "currentPosition hidden = None" "\<not> preference hidden"
    by (simp_all add: hidden_def)
  have d: "isTreeViewEnabled_error sample_deps = None"
    "getPlugConfig_result sample_deps = Inr sample_config"
    "getPageTree_result sample_deps sample_config = Inr sample_tree"
    "getCustomStyles_result sample_deps = Inr None"
    "showPanel_error sample_deps
       (getAdaptivePosition (window_innerWidth sample_deps) sample_config) = None"
    "setTreeViewEnabled_error sample_deps True = None"
    "hidePanel_error sample_deps
       (getAdaptivePosition (window_innerWidth sample_deps) sample_config) = None"
    "setTreeViewEnabled_error sample_deps False = None"
    by (simp_all add: sample_deps_def)
  from toggleTree_twice [OF w d(1) d(2) join_sample d(3) d(4) d(5) d(6) d(1) d(7) d(8)]
  show ?thesis using w by simp
qed

section \<open>showTree while the tree is shown\<close>

text \<open>
  C3. Let showTree be called while the tree is shown at \<open>p\<close>, and let \<open>t\<close> be the freshly
  resolved target. If \<open>t = p\<close>, hideTree is not run: \<open>hidePanel\<close> is not invoked and the
  preference is not written false. If \<open>t \<noteq> p\<close>, the first call after the configuration
  is loaded is \<open>hidePanel p\<close>, invoked once; if the hide sequence fails, showTree rejects
  and \<open>showPanel\<close> is never invoked; if every call fulfils, the calls are the whole hide
  sequence for \<open>p\<close>, then the fetches, then \<open>showPanel\<close> at \<open>t\<close> and the write of the
  preference, in that order, and the tree ends shown at \<open>t\<close>.
\<close>

theorem showTree_reentrant:
  assumes "getPlugConfig_result d = Inr config" and "currentPosition w = Some p"
      and "t = getAdaptivePosition (window_innerWidth d) config"
  shows "(t = p \<longrightarrow>
           hidePanel_calls (issued_by (showTree d) w) = 0 \<and>
           SetTreeViewEnabled False \<notin> set (issued_by (showTree d) w)) \<and>
         (t \<noteq> p \<longrightarrow>
           take 2 (issued_by (showTree d) w) = [GetPlugConfig, HidePanel p] \<and>
           hidePanel_calls (issued_by (showTree d) w) = 1) \<and>
         (t \<noteq> p \<and> (hidePanel_error d p \<noteq> None \<or> setTreeViewEnabled_error d False \<noteq> None) \<longrightarrow>
           isl (fst (showTree d w)) \<and> showPanel_calls (issued_by (showTree d) w) = 0) \<and>
         (t \<noteq> p \<and>
          hidePanel_error d p = None \<and> setTreeViewEnabled_error d False = None \<and>
          join (assets d) = Inr vs \<and>
          getPageTree_result d config = Inr tree \<and> getCustomStyles_result d = Inr styles \<and>
          showPanel_error d t = None \<and> setTreeViewEnabled_error d True = None \<longrightarrow>
           fst (showTree d w) = Inr () \<and>
           currentPosition (snd (showTree d w)) = Some t \<and>
           preference (snd (showTree d w)) \<and>
           (\<exists>html script. issued_by (showTree d) w =
              [GetPlugConfig, HidePanel p, SetTreeViewEnabled False] @
              map (ReadAsset (PLUG_NAME d)) asset_paths @
              [GetPageTree config, GetCustomStyles, ShowPanel t (size_cfg config) html script,
               SetTreeViewEnabled True]))"
  using assms(1) assms(3)
proof (cases rule: showTree_cases [of d config t w])
  case (hide_fails p e)
  with assms(2) show ?thesis by (simp add: count_defs)
next
  case (off_fails p e)
  with assms(2) show ?thesis by (simp add: count_defs)
next
  case (stays w1)
  show ?thesis
    by (cases rule: fetch_and_show_cases [of d config t w1])
      (use stays assms(2) in \<open>simp_all add: count_defs\<close>)
next
  case (hidden_first p w1)
  show ?thesis
    by (cases rule: fetch_and_show_cases [of d config t w1])
      (use hidden_first assms(2) in \<open>simp_all add: count_defs\<close>)
qed

theorem showTree_reentrant_witness:
  "hidePanel_calls (issued_by (showTree sample_deps) shown_left) = 0 \<and>
   SetTreeViewEnabled False \<notin> set (issued_by (showTree sample_deps) shown_left) \<and>
   take 2 (issued_by (showTree sample_deps) shown_right) = [GetPlugConfig, HidePanel Right] \<and>
   hidePanel_calls (issued_by (showTree sample_deps) shown_right) = 1 \<and>
   fst (showTree sample_deps shown_right) = Inr () \<and>
   currentPosition (snd (showTree sample_deps shown_right)) = Some Left \<and>
   preference (snd (showTree sample_deps shown_right)) \<and>
   (\<exists>html script. issued_by (showTree sample_deps) shown_right =
      [GetPlugConfig, HidePanel Right, SetTreeViewEnabled False] @
      map (ReadAsset (PLUG_NAME sample_deps)) asset_paths @
      [GetPageTree sample_config, GetCustomStyles,
       ShowPanel Left (size_cfg sample_config) html script, SetTreeViewEnabled True]) \<and>
   isl (fst (showTree deps_hide_fails shown_right)) \<and>
   showPanel_calls (issued_by (showTree deps_hide_fails) shown_right) = 0"
proof -
  have config: "getPlugConfig_result sample_deps = Inr sample_config"
    "getPlugConfig_result deps_hide_fails = Inr sample_config"
    by (simp_all add: sample_defs)
  have target: "Left = getAdaptivePosition (window_innerWidth sample_deps) sample_config"
    "Left = getAdaptivePosition (window_innerWidth deps_hide_fails) sample_config"
    by (simp_all add: sample_defs getAdaptivePosition_def)
  have left: "currentPosition shown_left = Some Left"
    and right: "currentPosition shown_right = Some Right"
    by (simp_all add: sample_defs)
  have fulfils: "hidePanel_error sample_deps Right = None"
    "setTreeViewEnabled_error sample_deps False = None"
    "getPageTree_result sample_deps sample_config = Inr sample_tree"
    "getCustomStyles_result sample_deps = Inr None"
    "showPanel_error sample_deps Left = None"
    "setTreeViewEnabled_error sample_deps True = None"
    by (simp_all add: sample_deps_def)
  have fails: "hidePanel_error deps_hide_fails Right \<noteq> None"
    by (simp add: sample_defs)
  from showTree_reentrant [OF config(1) left target(1)]
    showTree_reentrant [OF config(1) right target(1), of asset_paths sample_tree None]
    showTree_reentrant [OF config(2) right target(2)]
  show ?thesis
    using fulfils fails join_sample by simp
qed

section \<open>showTreeIfEnabled\<close>

text \<open>
  C7. showTreeIfEnabled never rejects. An error of the environment query is caught and
  written to the console behind the plug's display name, and so is an error of showTree;
  nothing else happens then. When the environment is \<open>"server"\<close> it returns at once: the
  environment query is the only call, \<open>showPanel\<close> is not invoked and the state is as
  before, whatever the preference is.
\<close>

theorem showTreeIfEnabled_never_raises:
  "fst (showTreeIfEnabled d w) = Inr () \<and>
   (getEnv_result d = Inl e \<longrightarrow>
      snd (showTreeIfEnabled d w) =
        w\<lparr>trace := trace w @
          [GetEnv, ConsoleError (PLUG_DISPLAY_NAME d @ '': showTreeIfEnabled failed'') e]\<rparr>) \<and>
   (getEnv_result d = Inr env \<and> env \<noteq> ''server'' \<and> isTreeViewEnabled_error d = None \<and>
    preference w \<and>
    showTree d (w\<lparr>trace := trace w @ [GetEnv, IsTreeViewEnabled]\<rparr>) = (Inl e, w') \<longrightarrow>
      snd (showTreeIfEnabled d w) =
        w'\<lparr>trace := trace w' @
          [ConsoleError (PLUG_DISPLAY_NAME d @ '': showTreeIfEnabled failed'') e]\<rparr>) \<and>
   (getEnv_result d = Inr ''server'' \<longrightarrow>
      snd (showTreeIfEnabled d w) = w\<lparr>trace := trace w @ [GetEnv]\<rparr> \<and>
      showPanel_calls (issued_by (showTreeIfEnabled d) w) = 0)"
  by (auto simp add: showTreeIfEnabled_def io_defs issued_by_def showPanel_calls_def
      split: sum.splits option.splits prod.splits)

theorem showTreeIfEnabled_never_raises_witness:
  "fst (showTreeIfEnabled deps_env_fails enabled_hidden) = Inr () \<and>
   snd (showTreeIfEnabled deps_env_fails enabled_hidden) =
     enabled_hidden\<lparr>trace :=
       [GetEnv, ConsoleError ''TreeView: showTreeIfEnabled failed'' (Error ''no env'')]\<rparr> \<and>
   fst (showTreeIfEnabled deps_tree_fails enabled_hidden) = Inr () \<and>
   last (trace (snd (showTreeIfEnabled deps_tree_fails enabled_hidden))) =
     ConsoleError ''TreeView: showTreeIfEnabled failed'' (Error ''no tree'') \<and>
   preference enabled_hidden \<and>
   fst (showTreeIfEnabled deps_server enabled_hidden) = Inr () \<and>
   snd (showTreeIfEnabled deps_server enabled_hidden) = enabled_hidden\<lparr>trace := [GetEnv]\<rparr> \<and>
   showPanel_calls (issued_by (showTreeIfEnabled deps_server) enabled_hidden) = 0"
proof -
  let ?w = "enabled_hidden\<lparr>trace := trace enabled_hidden @ [GetEnv, IsTreeViewEnabled]\<rparr>"
  have env: "getEnv_result deps_env_fails = Inl (Error ''no env'')"
    "getEnv_result deps_server = Inr ''server''"
    "getEnv_result deps_tree_fails = Inr ''client''" "''client'' \<noteq> ''server''"
    "isTreeViewEnabled_error deps_tree_fails = None"
    by (simp_all add: sample_defs)
  have name: "PLUG_DISPLAY_NAME deps_env_fails = ''TreeView''"
    "PLUG_DISPLAY_NAME deps_tree_fails = ''TreeView''"
    by (simp_all add: sample_defs)
  have w: "preference enabled_hidden" "trace enabled_hidden = []"
    by (simp_all add: sample_defs)
  have "fst (showTree deps_tree_fails ?w) = Inl (Error ''no tree'')"
    by (simp add: showTree_def hideTree_def run_defs)
  then have rejects: "showTree deps_tree_fails ?w =
      (Inl (Error ''no tree''), snd (showTree deps_tree_fails ?w))"
    by (simp add: prod_eq_iff)
  from showTreeIfEnabled_never_raises
      [of deps_env_fails enabled_hidden "Error ''no env''" "''client''" enabled_hidden]
    showTreeIfEnabled_never_raises
      [of deps_tree_fails enabled_hidden "Error ''no tree''" "''client''"
        "snd (showTree deps_tree_fails ?w)"]
    showTreeIfEnabled_never_raises
      [of deps_server enabled_hidden "Error ''no env''" "''server''" enabled_hidden]
  show ?thesis
    using env name w rejects by simp
qed

section \<open>The order of the fetches in showTree\<close>

text \<open>
  C2, as stated, says that the asset reads, \<open>getPageTree\<close> and \<open>getCustomStyles\<close> are
  issued as one batch, none depending on another. When one asset read rejects, the nine
  reads are all that is issued: \<open>getPageTree\<close> and \<open>getCustomStyles\<close> are never called.
  When \<open>getPageTree\<close> rejects, \<open>getCustomStyles\<close> is never called.
\<close>

theorem showTree_fetches_in_sequence:
  "issued_by (showTree deps_asset_fails) hidden =
     GetPlugConfig # map (ReadAsset ''treeview'') asset_paths \<and>
   issued_by (showTree deps_tree_fails) hidden =
     GetPlugConfig # map (ReadAsset ''treeview'') asset_paths @ [GetPageTree sample_config]"
  by (simp add: showTree_def hideTree_def run_defs asset_paths_def)

text \<open>
  C2, amended. Once the configuration is loaded and the hide step, if there is one, has
  succeeded, showTree issues all nine asset reads, in the order of the array and right
  after the hide step, whatever each of them settles to, and joins them. \<open>getPageTree\<close>
  is called exactly when all nine have fulfilled, \<open>getCustomStyles\<close> exactly when
  \<open>getPageTree\<close> has fulfilled too, and \<open>showPanel\<close> (once) exactly when
  \<open>getCustomStyles\<close> has fulfilled as well. The payload of that call is assembled from
  all results: the nine asset contents, the page tree, the custom styles (empty when
  there are none) and the configuration.
\<close>

theorem showTree_fetch_order:
  assumes "getPlugConfig_result d = Inr config"
      and "t = getAdaptivePosition (window_innerWidth d) config"
      and "hide_step_succeeds d t w"
  shows "take (length (hide_calls t w) + 10) (issued_by (showTree d) w) =
           GetPlugConfig # hide_calls t w @ map (ReadAsset (PLUG_NAME d)) asset_paths \<and>
         (GetPageTree config \<in> set (issued_by (showTree d) w) \<longleftrightarrow>
            (\<forall>a\<in>set (assets d). \<not> isl (outcome a))) \<and>
         (GetCustomStyles \<in> set (issued_by (showTree d) w) \<longleftrightarrow>
            (\<forall>a\<in>set (assets d). \<not> isl (outcome a)) \<and> \<not> isl (getPageTree_result d config)) \<and>
         (showPanel_calls (issued_by (showTree d) w) = 1 \<longleftrightarrow>
            (\<forall>a\<in>set (assets d). \<not> isl (outcome a)) \<and> \<not> isl (getPageTree_result d config) \<and>
            \<not> isl (getCustomStyles_result d)) \<and>
         (showPanel_calls (issued_by (showTree d) w) = 0 \<longleftrightarrow>
            \<not> ((\<forall>a\<in>set (assets d). \<not> isl (outcome a)) \<and> \<not> isl (getPageTree_result d config) \<and>
            \<not> isl (getCustomStyles_result d))) \<and>
         (map outcome (assets d) = map Inr contents \<and>
          getPageTree_result d config = Inr tree \<and>
          getCustomStyles_result d = Inr styles \<longrightarrow>
            issued_by (showTree d) w =
              GetPlugConfig # hide_calls t w @ map (ReadAsset (PLUG_NAME d)) asset_paths @
              [GetPageTree config, GetCustomStyles,
               ShowPanel t (size_cfg config)
                 \<lparr>html_sortableTreeCss = contents ! 0,
                  html_plugCss = contents ! 2,
                  html_customStyles = (case styles of Some s \<Rightarrow> s | None \<Rightarrow> ''''),
                  html_iconFolderPlus = contents ! 5,
                  html_iconFolderMinus = contents ! 4,
                  html_iconNavigation2 = contents ! 6,
                  html_iconRefresh = contents ! 7,
                  html_iconXCircle = contents ! 8,
                  html_treeElementId = ''treeview-tree''\<rparr>
                 \<lparr>js_sortableTreeJs = contents ! 1,
                  js_plugJs = contents ! 3,
                  js_initConfig =
                    \<lparr>ic_nodes = nodes tree,
                     ic_currentPage = currentPage tree,
                     ic_treeElementId = ''treeview-tree'',
                     ic_dragAndDrop = dragAndDrop config\<rparr>,
                  js_autoMobileMode = autoMobileMode config\<rparr>] @
              (if showPanel_error d t = None then [SetTreeViewEnabled True] else []))"
proof -
  have j: "(\<forall>a\<in>set (assets d). \<not> isl (outcome a)) \<longleftrightarrow> \<not> isl (join (assets d))"
    using join_Inr_iff [of "assets d"] by (cases "join (assets d)") auto
  have order: "take (length (hide_calls t w) + 10) (issued_by (showTree d) w) =
           GetPlugConfig # hide_calls t w @ map (ReadAsset (PLUG_NAME d)) asset_paths \<and>
         (GetPageTree config \<in> set (issued_by (showTree d) w) \<longleftrightarrow>
            \<not> isl (join (assets d))) \<and>
         (GetCustomStyles \<in> set (issued_by (showTree d) w) \<longleftrightarrow>
            \<not> isl (join (assets d)) \<and> \<not> isl (getPageTree_result d config)) \<and>
         (showPanel_calls (issued_by (showTree d) w) = 1 \<longleftrightarrow>
            \<not> isl (join (assets d)) \<and> \<not> isl (getPageTree_result d config) \<and>
            \<not> isl (getCustomStyles_result d)) \<and>
         (showPanel_calls (issued_by (showTree d) w) = 0 \<longleftrightarrow>
            \<not> (\<not> isl (join (assets d)) \<and> \<not> isl (getPageTree_result d config) \<and>
            \<not> isl (getCustomStyles_result d)))"
    using assms(1) assms(2)
  proof (cases rule: showTree_cases [of d config t w])
    case (hide_fails p e)
    then show ?thesis using assms(3) by (simp add: hide_step_succeeds_def)
  next
    case (off_fails p e)
    then show ?thesis using assms(3) by (simp add: hide_step_succeeds_def)
  next
    case (stays w1)
    show ?thesis
      by (cases rule: fetch_and_show_cases [of d config t w1])
        (use stays in \<open>auto simp add: count_defs length_asset_paths hide_calls_def\<close>)
  next
    case (hidden_first p w1)
    show ?thesis
      by (cases rule: fetch_and_show_cases [of d config t w1])
        (use hidden_first in \<open>auto simp add: count_defs length_asset_paths hide_calls_def\<close>)
  qed
  have payload: "issued_by (showTree d) w =
              GetPlugConfig # hide_calls t w @ map (ReadAsset (PLUG_NAME d)) asset_paths @
              [GetPageTree config, GetCustomStyles,
               ShowPanel t (size_cfg config)
                 \<lparr>html_sortableTreeCss = contents ! 0,
                  html_plugCss = contents ! 2,
                  html_customStyles = (case styles of Some s \<Rightarrow> s | None \<Rightarrow> ''''),
                  html_iconFolderPlus = contents ! 5,
                  html_iconFolderMinus = contents ! 4,
                  html_iconNavigation2 = contents ! 6,
                  html_iconRefresh = contents ! 7,
                  html_iconXCircle = contents ! 8,
                  html_treeElementId = ''treeview-tree''\<rparr>
                 \<lparr>js_sortableTreeJs = contents ! 1,
                  js_plugJs = contents ! 3,
                  js_initConfig =
                    \<lparr>ic_nodes = nodes tree,
                     ic_currentPage = currentPage tree,
                     ic_treeElementId = ''treeview-tree'',
                     ic_dragAndDrop = dragAndDrop config\<rparr>,
                  js_autoMobileMode = autoMobileMode config\<rparr>] @
              (if showPanel_error d t = None then [SetTreeViewEnabled True] else [])"
    if fulfil: "map outcome (assets d) = map Inr contents"
      "getPageTree_result d config = Inr tree"
      "getCustomStyles_result d = Inr styles"
  proof -
    note run = fetch_and_show_fulfilled [OF join_fulfilled [OF fulfil(1)] fulfil(2) fulfil(3)]
    from assms(1) assms(2) show ?thesis
    proof (cases rule: showTree_cases [of d config t w])
      case (hide_fails p e)
      then show ?thesis using assms(3) by (simp add: hide_step_succeeds_def)
    next
      case (off_fails p e)
      then show ?thesis using assms(3) by (simp add: hide_step_succeeds_def)
    next
      case (stays w1)
      then show ?thesis
        using run [of t w1] by (auto simp add: issued_by_def hide_calls_def)
    next
      case (hidden_first p w1)
      then show ?thesis
        using run [of t w1] by (auto simp add: issued_by_def hide_calls_def)
    qed
  qed
  from order payload show ?thesis
    unfolding j by blast
qed

theorem showTree_fetch_order_witness:
  "hide_step_succeeds deps_asset_fails Left shown_right \<and>
   take 12 (issued_by (showTree deps_asset_fails) shown_right) =
     [GetPlugConfig, HidePanel Right, SetTreeViewEnabled False] @
     map (ReadAsset ''treeview'') asset_paths \<and>
   GetPageTree sample_config \<notin> set (issued_by (showTree deps_asset_fails) shown_right) \<and>
   GetCustomStyles \<notin> set (issued_by (showTree deps_asset_fails) shown_right) \<and>
   showPanel_calls (issued_by (showTree deps_asset_fails) shown_right) = 0 \<and>
   hide_step_succeeds sample_deps Left hidden \<and>
   take 10 (issued_by (showTree sample_deps) hidden) =
     GetPlugConfig # map (ReadAsset ''treeview'') asset_paths \<and>
   GetPageTree sample_config \<in> set (issued_by (showTree sample_deps) hidden) \<and>
   GetCustomStyles \<in> set (issued_by (showTree sample_deps) hidden) \<and>
   showPanel_calls (issued_by (showTree sample_deps) hidden) = 1 \<and>
   issued_by (showTree sample_deps) hidden =
     GetPlugConfig # map (ReadAsset ''treeview'') asset_paths @
     [GetPageTree sample_config, GetCustomStyles,
      ShowPanel Left 1
        \<lparr>html_sortableTreeCss = ''assets/sortable-tree/sortable-tree.css'',
         html_plugCss = ''assets/treeview.css'',
         html_customStyles = '''',
         html_iconFolderPlus = ''assets/icons/folder-plus.svg'',
         html_iconFolderMinus = ''assets/icons/folder-minus.svg'',
         html_iconNavigation2 = ''assets/icons/navigation-2.svg'',
         html_iconRefresh = ''assets/icons/refresh-cw.svg'',
         html_iconXCircle = ''assets/icons/x-circle.svg'',
         html_treeElementId = ''treeview-tree''\<rparr>
        \<lparr>js_sortableTreeJs = ''assets/sortable-tree/sortable-tree.js'',
         js_plugJs = ''assets/treeview.js'',
         js_initConfig =
           \<lparr>ic_nodes = [TreeNode ''index'' []],
            ic_currentPage = ''index'',
            ic_treeElementId = ''treeview-tree'',
            ic_dragAndDrop = \<lparr>enabled = True\<rparr>\<rparr>,
         js_autoMobileMode = True\<rparr>,
      SetTreeViewEnabled True]"
proof -
  have config: "getPlugConfig_result deps_asset_fails = Inr sample_config"
    "getPlugConfig_result sample_deps = Inr sample_config"
    by (simp_all add: sample_defs)
  have target: "Left = getAdaptivePosition (window_innerWidth deps_asset_fails) sample_config"
    "Left = getAdaptivePosition (window_innerWidth sample_deps) sample_config"
    by (simp_all add: sample_defs getAdaptivePosition_def)
  have hide: "hide_step_succeeds deps_asset_fails Left shown_right"
    "hide_step_succeeds sample_deps Left hidden"
    by (simp_all add: hide_step_succeeds_def sample_defs)
  have settled: "\<not> (\<forall>a\<in>set (assets deps_asset_fails). \<not> isl (outcome a))"
    "\<forall>a\<in>set (assets sample_deps). \<not> isl (outcome a)"
    "\<not> isl (getPageTree_result sample_deps sample_config)"
    "\<not> isl (getCustomStyles_result sample_deps)"
    by (simp_all add: assets_def asset_paths_def readAsset_def sample_defs)
  have fulfil: "map outcome (assets sample_deps) = map Inr asset_paths"
    "getPageTree_result sample_deps sample_config = Inr sample_tree"
    "getCustomStyles_result sample_deps = Inr None"
    "showPanel_error sample_deps Left = None"
    by (simp_all add: assets_def asset_paths_def readAsset_def sample_defs)
  have calls: "hide_calls Left shown_right = [HidePanel Right, SetTreeViewEnabled False]"
    "hide_calls Left hidden = []"
    "PLUG_NAME deps_asset_fails = ''treeview''" "PLUG_NAME sample_deps = ''treeview''"
    by (simp_all add: hide_calls_def sample_defs)
  have content:
    "size_cfg sample_config = 1" "autoMobileMode sample_config"
    "dragAndDrop sample_config = \<lparr>enabled = True\<rparr>"
    "nodes sample_tree = [TreeNode ''index'' []]" "currentPage sample_tree = ''index''"
    by (simp_all add: sample_defs)
  from showTree_fetch_order [OF config(1) target(1) hide(1)]
    showTree_fetch_order
      [OF config(2) target(2) hide(2), of asset_paths sample_tree None]
  show ?thesis
    using hide settled fulfil by (simp add: calls content asset_paths_def showPanel_calls_def)
qed

section \<open>showTree when the preference cannot be written\<close>

text \<open>
  C10, as stated, says that when \<open>setTreeViewEnabled(true)\<close> rejects after a successful
  \<open>showPanel\<close>, the value that \<open>currentPosition\<close> retains leaves the panel just shown
  unrecorded. When the tree is already shown on the left and the target is the left again,
  showTree hides nothing, shows the panel on the left once more, and rejects at the write
  of the preference: \<open>currentPosition\<close> is still the left, the position of the panel just
  shown.
\<close>

theorem showTree_write_fails_same_position:
  "getPlugConfig_result deps_write_fails = Inr sample_config \<and>
   getAdaptivePosition (window_innerWidth deps_write_fails) sample_config = Left \<and>
   currentPosition shown_left = Some Left \<and>
   showPanel_error deps_write_fails Left = None \<and>
   setTreeViewEnabled_error deps_write_fails True = Some (Error ''no store'') \<and>
   showPanel_calls (issued_by (showTree deps_write_fails) shown_left) = 1 \<and>
   last (issued_by (showTree deps_write_fails) shown_left) = SetTreeViewEnabled True \<and>
   fst (showTree deps_write_fails shown_left) = Inl (Error ''no store'') \<and>
   currentPosition (snd (showTree deps_write_fails shown_left)) = Some Left"
  by (simp add: showTree_def hideTree_def run_defs showPanel_calls_def)

text \<open>
  C10, amended. showTree assigns the target \<open>t\<close> to \<open>currentPosition\<close> only after
  \<open>showPanel\<close> and \<open>setTreeViewEnabled(true)\<close> have both succeeded: a run that changes
  \<open>currentPosition\<close> to \<open>t\<close> has invoked \<open>showPanel\<close>, both calls succeeded and showTree
  resolved. If \<open>showPanel\<close> is invoked and succeeds and \<open>setTreeViewEnabled(true)\<close> then
  rejects, showTree rejects with that error, these two calls are its last, and
  \<open>currentPosition\<close> keeps the value it had before the assignment: absent when the tree
  was hidden or has just been hidden by the hide step, so that the panel newly shown at
  \<open>t\<close> is not recorded; the old position when the tree was shown at \<open>t\<close> already, so
  that the state still records \<open>t\<close>. The preference is not set either. This run is the
  one that happens when the hide step succeeds, the three fetches fulfil, \<open>showPanel\<close>
  succeeds and the write rejects.
\<close>

theorem showTree_preference_write_fails:
  assumes "getPlugConfig_result d = Inr config"
      and "t = getAdaptivePosition (window_innerWidth d) config"
  shows "(currentPosition (snd (showTree d w)) = Some t \<and> currentPosition w \<noteq> Some t \<longrightarrow>
            fst (showTree d w) = Inr () \<and>
            showPanel_calls (issued_by (showTree d) w) = 1 \<and>
            showPanel_error d t = None \<and>
            setTreeViewEnabled_error d True = None) \<and>
         (showPanel_calls (issued_by (showTree d) w) = 1 \<and>
          showPanel_error d t = None \<and>
          setTreeViewEnabled_error d True = Some e \<longrightarrow>
            fst (showTree d w) = Inl e \<and>
            (\<exists>html script.
               drop (length (issued_by (showTree d) w) - 2) (issued_by (showTree d) w) =
                 [ShowPanel t (size_cfg config) html script, SetTreeViewEnabled True]) \<and>
            currentPosition (snd (showTree d w)) =
              (if currentPosition w = Some t then Some t else None) \<and>
            preference (snd (showTree d w)) =
              (if currentPosition w = None \<or> currentPosition w = Some t
               then preference w else False)) \<and>
         (hide_step_succeeds d t w \<and>
          map outcome (assets d) = map Inr contents \<and>
          getPageTree_result d config = Inr tree \<and>
          getCustomStyles_result d = Inr styles \<and>
          showPanel_error d t = None \<and>
          setTreeViewEnabled_error d True = Some e \<longrightarrow>
            showPanel_calls (issued_by (showTree d) w) = 1 \<and>
            fst (showTree d w) = Inl e \<and>
            currentPosition (snd (showTree d w)) =
              (if currentPosition w = Some t then Some t else None))"
  using assms
proof (cases rule: showTree_cases [of d config t w])
  case (hide_fails p e)
  then show ?thesis by (simp add: count_defs hide_step_succeeds_def)
next
  case (off_fails p e)
  then show ?thesis by (simp add: count_defs hide_step_succeeds_def)
next
  case (stays w1)
  show ?thesis
    by (cases rule: fetch_and_show_cases [of d config t w1])
      (use stays in \<open>auto simp add: count_defs length_asset_paths dest!: join_fulfilled\<close>)
next
  case (hidden_first p w1)
  show ?thesis
    by (cases rule: fetch_and_show_cases [of d config t w1])
      (use hidden_first in
        \<open>auto simp add: count_defs length_asset_paths dest!: join_fulfilled\<close>)
qed

theorem showTree_preference_write_fails_witness:
  "currentPosition (snd (showTree sample_deps hidden)) = Some Left \<and>
   currentPosition hidden \<noteq> Some Left \<and>
   fst (showTree sample_deps hidden) = Inr () \<and>
   showPanel_calls (issued_by (showTree deps_write_fails) hidden) = 1 \<and>
   showPanel_error deps_write_fails Left = None \<and>
   setTreeViewEnabled_error deps_write_fails True = Some (Error ''no store'') \<and>
   fst (showTree deps_write_fails hidden) = Inl (Error ''no store'') \<and>
   currentPosition (snd (showTree deps_write_fails hidden)) = None \<and>
   preference (snd (showTree deps_write_fails hidden)) = False \<and>
   showPanel_calls (issued_by (showTree deps_write_fails) shown_right) = 1 \<and>
   fst (showTree deps_write_fails shown_right) = Inl (Error ''no store'') \<and>
   currentPosition (snd (showTree deps_write_fails shown_right)) = None \<and>
   preference (snd (showTree deps_write_fails shown_right)) = False \<and>
   hide_step_succeeds deps_write_fails Left shown_left \<and>
   map outcome (assets deps_write_fails) = map Inr asset_paths \<and>
   showPanel_calls (issued_by (showTree deps_write_fails) shown_left) = 1 \<and>
   fst (showTree deps_write_fails shown_left) = Inl (Error ''no store'') \<and>
   currentPosition (snd (showTree deps_write_fails shown_left)) = Some Left \<and>
   preference (snd (showTree deps_write_fails shown_left)) = True"
proof -
  have config: "getPlugConfig_result sample_deps = Inr sample_config"
    "getPlugConfig_result deps_write_fails = Inr sample_config"
    by (simp_all add: sample_defs)
  have target: "Left = getAdaptivePosition (window_innerWidth sample_deps) sample_config"
    "Left = getAdaptivePosition (window_innerWidth deps_write_fails) sample_config"
    by (simp_all add: sample_defs getAdaptivePosition_def)
  have assigned: "currentPosition (snd (showTree sample_deps hidden)) = Some Left"
    by (simp add: showTree_def hideTree_def run_defs)
  have invoked: "showPanel_calls (issued_by (showTree deps_write_fails) hidden) = 1"
    "showPanel_calls (issued_by (showTree deps_write_fails) shown_right) = 1"
    by (simp_all add: showTree_def hideTree_def run_defs showPanel_calls_def)
  have answers: "showPanel_error deps_write_fails Left = None"
    "setTreeViewEnabled_error deps_write_fails True = Some (Error ''no store'')"
    "getPageTree_result deps_write_fails sample_config = Inr sample_tree"
    "getCustomStyles_result deps_write_fails = Inr None"
    by (simp_all add: sample_defs)
  have reads: "map outcome (assets deps_write_fails) = map Inr asset_paths"
    by (simp add: assets_def asset_paths_def readAsset_def sample_defs)
  have hide: "hide_step_succeeds deps_write_fails Left shown_left"
    by (simp add: hide_step_succeeds_def sample_defs)
  have before: "currentPosition hidden = None" "preference hidden = False"
    "currentPosition shown_right = Some Right"
    "currentPosition shown_left = Some Left" "preference shown_left = True"
    by (simp_all add: sample_defs)
  from showTree_preference_write_fails [OF config(1) target(1), of hidden]
    showTree_preference_write_fails
      [OF config(2) target(2), of hidden "Error ''no store''"]
    showTree_preference_write_fails
      [OF config(2) target(2), of shown_right "Error ''no store''"]
    showTree_preference_write_fails
      [OF config(2) target(2), of shown_left "Error ''no store''" asset_paths sample_tree None]
  show ?thesis
    using assigned invoked answers reads hide before by simp
qed

end
